theory Spec2Isabelle
  imports Complex_Main "HOL-Library.Sublist" "HOL-Library.AList"
begin

section \<open>Strings\<close>

text \<open>
  A JavaScript string is modelled as a \<^typ>\<open>string\<close> holding its UTF-8 bytes: an ASCII
  character is one \<^typ>\<open>char\<close> below \<open>0x80\<close>, every other code point is a sequence of
  \<^typ>\<open>char\<close>s from \<open>0x80\<close> upwards. All keywords, digits and separators the server
  looks for are ASCII, so a match never starts or ends inside a multi-byte sequence.
\<close>

text \<open>
  \<^verbatim>\<open>String.prototype.toLowerCase\<close>. The ASCII capitals are mapped to their small letters
  and every other byte is kept. A capital outside ASCII lower-cases to text outside ASCII,
  with two exceptions: U+212A gives \<open>k\<close>, which no keyword of the server contains, and
  U+0130 gives \<open>i\<close> followed by U+0307, which could only complete a keyword ending in
  \<open>i\<close>, and none does. The keyword tests below are therefore the ones of the source.
\<close>

definition toLowerChar :: "char \<Rightarrow> char" where
  "toLowerChar c =
     (case map_of (zip ''ABCDEFGHIJKLMNOPQRSTUVWXYZ'' ''abcdefghijklmnopqrstuvwxyz'') c of
        Some l \<Rightarrow> l
      | None \<Rightarrow> c)"

definition toLowerCase :: "string \<Rightarrow> string" where
  "toLowerCase s = map toLowerChar s"

text \<open>\<^verbatim>\<open>String.prototype.includes\<close>: the needle occurs at some position of the string.\<close>

fun includesStr :: "string \<Rightarrow> string \<Rightarrow> bool" where
  "includesStr [] k = (k = [])"
| "includesStr (c # cs) k = (prefix k (c # cs) \<or> includesStr cs k)"

text \<open>\<^verbatim>\<open>Number.prototype.toString\<close> on a non-negative integer: its decimal digits.\<close>

definition digitChar :: "nat \<Rightarrow> char" where
  "digitChar d = ''0123456789'' ! d"

function toString :: "nat \<Rightarrow> string" where
  "toString n = (if n < 10 then [digitChar n] else toString (n div 10) @ [digitChar (n mod 10)])"
  by pat_completeness auto
termination
  by (relation "measure id") auto

declare toString.simps [simp del]

section \<open>The year pattern\<close>

text \<open>
  The source matches the prompt against
  \<^verbatim>\<open>/(\d{4})\s*(?:to|-)?\s*(\d{4})?/\<close>.
  \<^verbatim>\<open>\d\<close> is an ASCII digit. \<^verbatim>\<open>\s\<close> is a white-space or line-terminator code point:
  U+0009 to U+000D, U+0020, U+00A0, U+1680, U+2000 to U+200A, U+2028, U+2029, U+202F,
  U+205F, U+3000 and U+FEFF, listed here by their UTF-8 bytes.
\<close>

definition isDigit :: "char \<Rightarrow> bool" where
  "isDigit c = (c \<in> set ''0123456789'')"

definition whiteSpace :: "string list" where
  "whiteSpace =
     [[CHR 0x09], [CHR 0x0A], [CHR 0x0B], [CHR 0x0C], [CHR 0x0D], [CHR 0x20],
      [CHR 0xC2, CHR 0xA0],
      [CHR 0xE1, CHR 0x9A, CHR 0x80],
      [CHR 0xE2, CHR 0x80, CHR 0x80], [CHR 0xE2, CHR 0x80, CHR 0x81],
      [CHR 0xE2, CHR 0x80, CHR 0x82], [CHR 0xE2, CHR 0x80, CHR 0x83],
      [CHR 0xE2, CHR 0x80, CHR 0x84], [CHR 0xE2, CHR 0x80, CHR 0x85],
      [CHR 0xE2, CHR 0x80, CHR 0x86], [CHR 0xE2, CHR 0x80, CHR 0x87],
      [CHR 0xE2, CHR 0x80, CHR 0x88], [CHR 0xE2, CHR 0x80, CHR 0x89],
      [CHR 0xE2, CHR 0x80, CHR 0x8A],
      [CHR 0xE2, CHR 0x80, CHR 0xA8], [CHR 0xE2, CHR 0x80, CHR 0xA9],
      [CHR 0xE2, CHR 0x80, CHR 0xAF],
      [CHR 0xE2, CHR 0x81, CHR 0x9F],
      [CHR 0xE3, CHR 0x80, CHR 0x80],
      [CHR 0xEF, CHR 0xBB, CHR 0xBF]]"

text \<open>One alternative of a list of literals, tried in order: the rest after the first that fits.\<close>

fun stripAny :: "string list \<Rightarrow> string \<Rightarrow> string option" where
  "stripAny [] s = None"
| "stripAny (w # ws) s = (if prefix w s then Some (drop (length w) s) else stripAny ws s)"

text \<open>\<^verbatim>\<open>\s*\<close> is greedy: it consumes white space as long as there is some.\<close>

function skipSpaces :: "string \<Rightarrow> string" where
  "skipSpaces s =
     (case stripAny whiteSpace s of
        Some r \<Rightarrow> skipSpaces r
      | None \<Rightarrow> s)"
  by pat_completeness auto
termination
proof (relation "measure length")
  show "wf (measure length)" by simp
next
  fix s r :: string
  assume r: "stripAny whiteSpace s = Some r"
  have shorter: "stripAny ws s = Some r \<Longrightarrow> [] \<notin> set ws \<Longrightarrow> length r < length s"
    for ws
    by (induction ws) (auto split: if_splits simp: prefix_def)
  have "[] \<notin> set whiteSpace"
    by (simp add: whiteSpace_def)
  with r have "length r < length s"
    by (rule shorter)
  then show "(r, s) \<in> measure length" by simp
qed

declare skipSpaces.simps [simp del]

text \<open>\<^verbatim>\<open>(?:to|-)?\<close> takes the word \<open>to\<close>, else a hyphen, else nothing.\<close>

definition skipSeparator :: "string \<Rightarrow> string" where
  "skipSeparator s = (case stripAny [''to'', ''-''] s of Some r \<Rightarrow> r | None \<Rightarrow> s)"

text \<open>\<^verbatim>\<open>(\d{4})\<close>: four digits at the start, returned with the text after them.\<close>

fun fourDigits :: "string \<Rightarrow> (string \<times> string) option" where
  "fourDigits (a # b # c # d # rest) =
     (if isDigit a \<and> isDigit b \<and> isDigit c \<and> isDigit d then Some ([a, b, c, d], rest)
      else None)"
| "fourDigits s = None"

text \<open>
  The pattern tried at the start of a string. Once the first group has matched, every
  later item is optional, so the match succeeds; each optional item is greedy and takes
  what it can. Taking less never helps the second group: white space left over would be
  consumed by the second \<^verbatim>\<open>\s*\<close>, and a separator left over is not a digit. The
  result is the pair of capture groups 1 and 2, the second \<open>None\<close> where the source has
  \<^verbatim>\<open>undefined\<close>.
\<close>

definition matchHere :: "string \<Rightarrow> (string \<times> string option) option" where
  "matchHere s =
     (case fourDigits s of
        None \<Rightarrow> None
      | Some (y1, r) \<Rightarrow>
          Some (y1, map_option fst (fourDigits (skipSpaces (skipSeparator (skipSpaces r))))))"

text \<open>\<^verbatim>\<open>prompt.match(...)\<close> without the \<open>g\<close> flag: the match at the leftmost position.\<close>

fun yearMatch :: "string \<Rightarrow> (string \<times> string option) option" where
  "yearMatch [] = None"
| "yearMatch (c # cs) =
     (case matchHere (c # cs) of Some m \<Rightarrow> Some m | None \<Rightarrow> yearMatch cs)"

section \<open>The parameter extractor\<close>

text \<open>
  The object built by \<^verbatim>\<open>extractParameters\<close>: a missing property is \<open>None\<close>. The
  calendar year read from \<^verbatim>\<open>new Date().getFullYear()\<close> is the first argument.
\<close>

record params =
  startYear :: "string option"
  endYear :: "string option"
  dataTypes :: "string list option"
  aggregation :: "string option"
  timeframe :: "string option"

definition emptyParams :: params where
  "emptyParams =
     \<lparr>startYear = None, endYear = None, dataTypes = None, aggregation = None,
      timeframe = None\<rparr>"

text \<open>\<^verbatim>\<open>a || b\<close> on an optional string: the empty string and \<^verbatim>\<open>undefined\<close> are falsy.\<close>

definition orElse :: "string option \<Rightarrow> string \<Rightarrow> string" where
  "orElse a b = (case a of Some s \<Rightarrow> (if s \<noteq> [] then s else b) | None \<Rightarrow> b)"

definition extractYears :: "nat \<Rightarrow> string \<Rightarrow> params \<Rightarrow> params" where
  "extractYears fullYear prompt ps =
     (case yearMatch prompt of
        Some (y1, y2) \<Rightarrow>
          ps\<lparr>startYear := Some y1, endYear := Some (orElse y2 (toString fullYear))\<rparr>
      | None \<Rightarrow> ps)"

definition extractDataTypes :: "string \<Rightarrow> params \<Rightarrow> params" where
  "extractDataTypes prompt ps0 =
     (let ps1 = (if includesStr (toLowerCase prompt) ''temperature''
                 then ps0\<lparr>dataTypes := Some [''temperature'']\<rparr> else ps0);
          ps2 = (if includesStr (toLowerCase prompt) ''rainfall''
                    \<or> includesStr (toLowerCase prompt) ''precipitation''
                 then ps1\<lparr>dataTypes :=
                        (case dataTypes ps1 of
                           Some ts \<Rightarrow> Some (ts @ [''rainfall''])
                         | None \<Rightarrow> Some [''rainfall''])\<rparr>
                 else ps1);
          ps3 = (if includesStr (toLowerCase prompt) ''population''
                 then ps2\<lparr>dataTypes := Some [''population'']\<rparr> else ps2);
          ps4 = (if includesStr (toLowerCase prompt) ''demographics''
                 then ps3\<lparr>dataTypes := Some [''demographics'']\<rparr> else ps3)
      in ps4)"

definition extractAggregation :: "string \<Rightarrow> params \<Rightarrow> params" where
  "extractAggregation prompt ps0 =
     (let ps1 = (if includesStr (toLowerCase prompt) ''average''
                 then ps0\<lparr>aggregation := Some ''average''\<rparr> else ps0);
          ps2 = (if includesStr (toLowerCase prompt) ''monthly''
                 then ps1\<lparr>timeframe := Some ''monthly''\<rparr> else ps1);
          ps3 = (if includesStr (toLowerCase prompt) ''yearly''
                    \<or> includesStr (toLowerCase prompt) ''annual''
                 then ps2\<lparr>timeframe := Some ''yearly''\<rparr> else ps2)
      in ps3)"

definition extractParameters :: "nat \<Rightarrow> string \<Rightarrow> params" where
  "extractParameters fullYear prompt =
     extractAggregation prompt (extractDataTypes prompt (extractYears fullYear prompt emptyParams))"

section \<open>The record store\<close>

text \<open>
  The rows of \<^verbatim>\<open>shared/schema.ts\<close> and the values inserted for them. A nullable column is
  an \<open>option\<close>. Ids and time stamps are natural numbers; a JavaScript number holds every
  integer below \<open>2^53\<close> exactly, and a store never lives to hold that many rows.
\<close>

record InsertLocation =
  il_name :: string
  il_latitude :: "string option"
  il_longitude :: "string option"
  il_type :: string

record Location =
  l_id :: nat
  l_name :: string
  l_latitude :: "string option"
  l_longitude :: "string option"
  l_type :: string
  l_createdAt :: nat

text \<open>A JSON value, as stored in the \<^verbatim>\<open>jsonb\<close> column \<^verbatim>\<open>visualization_data\<close>.\<close>

datatype json =
    JNull
  | JString string
  | JNumber rat
  | JArray "json list"
  | JObject "(string \<times> json) list"

record InsertQuery =
  iq_locationId :: nat
  iq_prompt :: string
  iq_extractedParams :: params
  iq_response :: "string option"
  iq_visualizationData :: json

record Query =
  q_id :: nat
  q_locationId :: nat
  q_prompt :: string
  q_extractedParams :: params
  q_response :: "string option"
  q_visualizationData :: json
  q_createdAt :: nat

record InsertConversation =
  ic_locationId :: nat
  ic_sessionId :: string

record Conversation =
  c_id :: nat
  c_locationId :: nat
  c_sessionId :: string
  c_createdAt :: nat

text \<open>
  \<^verbatim>\<open>class MemStorage\<close>. A JavaScript \<^verbatim>\<open>Map\<close> keeps its entries in insertion order, so
  each map is an association list: \<^const>\<open>map_of\<close> is \<^verbatim>\<open>get\<close>, \<^const>\<open>AList.update\<close> is
  \<^verbatim>\<open>set\<close> (a known key keeps its place, a new one goes to the end). Each method takes
  the store and returns its result, the creating ones together with the store they leave.
  The value of \<^verbatim>\<open>new Date()\<close> is an argument.
\<close>

record MemStorage =
  locations :: "(nat \<times> Location) list"
  queries :: "(nat \<times> Query) list"
  conversations :: "(nat \<times> Conversation) list"
  currentLocationId :: nat
  currentQueryId :: nat
  currentConversationId :: nat

definition newMemStorage :: MemStorage where
  "newMemStorage =
     \<lparr>locations = [], queries = [], conversations = [],
      currentLocationId = 1, currentQueryId = 1, currentConversationId = 1\<rparr>"

definition createLocation :: "MemStorage \<Rightarrow> InsertLocation \<Rightarrow> nat \<Rightarrow> Location \<times> MemStorage" where
  "createLocation st insertLocation now =
     (let id' = currentLocationId st;
          st1 = st\<lparr>currentLocationId := id' + 1\<rparr>;
          location =
            \<lparr>l_id = id', l_name = il_name insertLocation,
             l_latitude = il_latitude insertLocation,
             l_longitude = il_longitude insertLocation, l_type = il_type insertLocation,
             l_createdAt = now\<rparr>
      in (location, st1\<lparr>locations := AList.update id' location (locations st1)\<rparr>))"

definition getLocation :: "MemStorage \<Rightarrow> nat \<Rightarrow> Location option" where
  "getLocation st id' = map_of (locations st) id'"

definition createQuery :: "MemStorage \<Rightarrow> InsertQuery \<Rightarrow> nat \<Rightarrow> Query \<times> MemStorage" where
  "createQuery st insertQuery now =
     (let id' = currentQueryId st;
          st1 = st\<lparr>currentQueryId := id' + 1\<rparr>;
          query =
            \<lparr>q_id = id', q_locationId = iq_locationId insertQuery,
             q_prompt = iq_prompt insertQuery,
             q_extractedParams = iq_extractedParams insertQuery,
             q_response = iq_response insertQuery,
             q_visualizationData = iq_visualizationData insertQuery, q_createdAt = now\<rparr>
      in (query, st1\<lparr>queries := AList.update id' query (queries st1)\<rparr>))"

definition getQueriesByLocation :: "MemStorage \<Rightarrow> nat \<Rightarrow> Query list" where
  "getQueriesByLocation st locationId =
     filter (\<lambda>query. q_locationId query = locationId) (map snd (queries st))"

definition getQuery :: "MemStorage \<Rightarrow> nat \<Rightarrow> Query option" where
  "getQuery st id' = map_of (queries st) id'"

definition createConversation ::
  "MemStorage \<Rightarrow> InsertConversation \<Rightarrow> nat \<Rightarrow> Conversation \<times> MemStorage" where
  "createConversation st insertConversation now =
     (let id' = currentConversationId st;
          st1 = st\<lparr>currentConversationId := id' + 1\<rparr>;
          conversation =
            \<lparr>c_id = id', c_locationId = ic_locationId insertConversation,
             c_sessionId = ic_sessionId insertConversation, c_createdAt = now\<rparr>
      in (conversation,
          st1\<lparr>conversations := AList.update id' conversation (conversations st1)\<rparr>))"

definition getConversationsBySession :: "MemStorage \<Rightarrow> string \<Rightarrow> Conversation list" where
  "getConversationsBySession st sessionId =
     filter (\<lambda>conversation. c_sessionId conversation = sessionId)
       (map snd (conversations st))"

section \<open>The response selector\<close>

abbreviation newline :: string where
  "newline \<equiv> [CHR 0x0A]"

text \<open>\<^verbatim>\<open>params.dataTypes?.includes(tag)\<close>: \<^verbatim>\<open>undefined\<close>, which is falsy, without the list.\<close>

definition includesTag :: "string list option \<Rightarrow> string \<Rightarrow> bool" where
  "includesTag ts tag = (case ts of Some xs \<Rightarrow> tag \<in> set xs | None \<Rightarrow> False)"

text \<open>
  The two conditional pieces of the weather sentence. Each tests the truthiness of its
  field: a missing field and the empty string give the empty piece.
\<close>

definition fromClause :: "params \<Rightarrow> string" where
  "fromClause ps =
     (case startYear ps of Some y \<Rightarrow> (if y \<noteq> [] then '' from '' @ y else []) | None \<Rightarrow> [])"

definition toClause :: "params \<Rightarrow> string" where
  "toClause ps =
     (case endYear ps of Some y \<Rightarrow> (if y \<noteq> [] then '' to '' @ y else []) | None \<Rightarrow> [])"

text \<open>
  The three template literals of \<^verbatim>\<open>generateResponse\<close>. The fixed text before, between
  and after the interpolated expressions of a template is a constant of its own, one list
  entry per piece of a source line; characters outside ASCII are written as their UTF-8
  bytes.
\<close>

definition weatherHead :: string where
  \<open>weatherHead = concat [
     newline,
     ''      <div class="mb-4">'', newline,
     ''        <h3 class="font-semibold mb-2 text-lg">Weather Analysis for '']\<close>

definition weatherSentence :: string where
  \<open>weatherSentence = concat [
     ''</h3>'', newline,
     ''        <p class="text-gray-700">Based on historical data'']\<close>

definition weatherBody :: string where
  \<open>weatherBody = concat [
     '', here's what I found:</p>'', newline,
     ''      </div>'', newline,
     ''      <div class="bg-white border border-gray-200 rounded-lg p-4 mb-4">'', newline,
     ''        <div class="grid grid-cols-2 gap-4 text-sm">'', newline,
     ''          <div>'', newline,
     ''            <div class="font-medium text-green-600">Average Temperature</div>'', newline,
     ''            <div class="text-2xl font-bold text-gray-900">58.6'', [CHR 0xC2, CHR 0xB0],
       ''F</div>'', newline,
     ''            <div class="text-gray-500">'', [CHR 0xE2, CHR 0x86, CHR 0x91], '' 2.1'',
       [CHR 0xC2, CHR 0xB0], ''F from historical average</div>'', newline,
     ''          </div>'', newline,
     ''          <div>'', newline,
     ''            <div class="font-medium text-green-600">Annual Rainfall</div>'', newline,
     ''            <div class="text-2xl font-bold text-gray-900">23.4 inches</div>'', newline,
     ''            <div class="text-gray-500">'', [CHR 0xE2, CHR 0x86, CHR 0x93],
       '' 15% from historical average</div>'', newline,
     ''          </div>'', newline,
     ''        </div>'', newline,
     ''      </div>'', newline,
     ''      <div class="bg-blue-50 border border-blue-200 rounded-lg p-4">'', newline,
     ''        <h4 class="font-medium mb-2 text-gray-900">Key Insights:</h4>'', newline,
     ''        <ul class="text-sm space-y-1 text-gray-700">'', newline,
     ''          <li>'', [CHR 0xE2, CHR 0x80, CHR 0xA2],
       '' Warmest months: September-October (avg 65'', [CHR 0xC2, CHR 0xB0], ''F)</li>'',
       newline,
     ''          <li>'', [CHR 0xE2, CHR 0x80, CHR 0xA2],
       '' Coolest months: December-January (avg 52'', [CHR 0xC2, CHR 0xB0], ''F)</li>'', newline,
     ''          <li>'', [CHR 0xE2, CHR 0x80, CHR 0xA2],
       '' Driest period: June-August (0.2 inches/month)</li>'', newline,
     ''          <li>'', [CHR 0xE2, CHR 0x80, CHR 0xA2],
       '' Wettest period: December-February (6.8 inches/month)</li>'', newline,
     ''        </ul>'', newline,
     ''      </div>'', newline,
     ''    '']\<close>

definition weatherTemplate :: "string \<Rightarrow> params \<Rightarrow> string" where
  "weatherTemplate locationName ps =
     weatherHead @ locationName @ weatherSentence @ fromClause ps @ toClause ps @ weatherBody"

definition demographicsHead :: string where
  \<open>demographicsHead = concat [
     newline,
     ''      <div class="mb-4">'', newline,
     ''        <h3 class="font-semibold mb-2 text-lg">Demographics Analysis for '']\<close>

definition demographicsBody :: string where
  \<open>demographicsBody = concat [
     ''</h3>'', newline,
     ''        <p class="text-gray-700">Current population statistics and trends:</p>'', newline,
     ''      </div>'', newline,
     ''      <div class="grid grid-cols-2 gap-4 mb-4">'', newline,
     ''        <div class="bg-white border border-gray-200 rounded-lg p-4">'', newline,
     ''          <div class="font-medium text-green-600">Total Population</div>'', newline,
     ''          <div class="text-2xl font-bold text-gray-900">874,961</div>'', newline,
     ''          <div class="text-gray-500 text-sm">'', [CHR 0xE2, CHR 0x86, CHR 0x93],
       '' 6.3% since 2020</div>'', newline,
     ''        </div>'', newline,
     ''        <div class="bg-white border border-gray-200 rounded-lg p-4">'', newline,
     ''          <div class="font-medium text-green-600">Population Density</div>'', newline,
     ''          <div class="text-2xl font-bold text-gray-900">18,633/mi'', [CHR 0xC2, CHR 0xB2],
       ''</div>'', newline,
     ''          <div class="text-gray-500 text-sm">2nd highest in US</div>'', newline,
     ''        </div>'', newline,
     ''      </div>'', newline,
     ''      <div class="bg-green-50 border border-green-200 rounded-lg p-4">'', newline,
     ''        <h4 class="font-medium mb-2 text-gray-900">Age Distribution:</h4>'', newline,
     ''        <div class="space-y-2 text-sm text-gray-700">'', newline,
     ''          <div class="flex justify-between"><span>18-34 years:</span><span class="font-medium">31.2%</span></div>'',
       newline,
     ''          <div class="flex justify-between"><span>35-54 years:</span><span class="font-medium">28.9%</span></div>'',
       newline,
     ''          <div class="flex justify-between"><span>55+ years:</span><span class="font-medium">24.1%</span></div>'',
       newline,
     ''          <div class="flex justify-between"><span>Under 18:</span><span class="font-medium">15.8%</span></div>'',
       newline,
     ''        </div>'', newline,
     ''      </div>'', newline,
     ''    '']\<close>

definition demographicsTemplate :: "string \<Rightarrow> string" where
  "demographicsTemplate locationName = demographicsHead @ locationName @ demographicsBody"

definition genericHead :: string where
  \<open>genericHead = concat [
     newline,
     ''    <div class="mb-4">'', newline,
     ''      <h3 class="font-semibold mb-2 text-lg">Geographic Analysis for '']\<close>

definition genericRequest :: string where
  \<open>genericRequest = concat [
     ''</h3>'', newline,
     ''      <p class="text-gray-700">I've analyzed your request: "'']\<close>

definition genericBody :: string where
  \<open>genericBody = concat [
     ''"</p>'', newline,
     ''    </div>'', newline,
     ''    <div class="bg-white border border-gray-200 rounded-lg p-4 mb-4">'', newline,
     ''      <div class="text-center text-gray-500">'', newline,
     ''        <div class="text-4xl mb-2">'', [CHR 0xF0, CHR 0x9F, CHR 0x93, CHR 0x8A],
       ''</div>'', newline,
     ''        <p>Analysis results would appear here based on your specific query.</p>'',
       newline,
     ''      </div>'', newline,
     ''    </div>'', newline,
     ''    <div class="bg-yellow-50 border border-yellow-200 rounded-lg p-4">'', newline,
     ''      <p class="text-sm text-gray-700"><strong>Try asking about:</strong> weather patterns, population demographics, economic data, environmental factors, or historical trends for this location.</p>'',
       newline,
     ''    </div>'', newline,
     ''  '']\<close>

definition genericTemplate :: "string \<Rightarrow> string \<Rightarrow> string" where
  "genericTemplate locationName prompt =
     genericHead @ locationName @ genericRequest @ prompt @ genericBody"

text \<open>\<^verbatim>\<open>location?.name || "the selected location"\<close>: an empty name is falsy too.\<close>

definition locationName :: "MemStorage \<Rightarrow> nat \<Rightarrow> string" where
  "locationName st locationId =
     (case getLocation st locationId of
        Some location \<Rightarrow>
          (if l_name location \<noteq> [] then l_name location else ''the selected location'')
      | None \<Rightarrow> ''the selected location'')"

definition generateResponse :: "MemStorage \<Rightarrow> string \<Rightarrow> params \<Rightarrow> nat \<Rightarrow> string" where
  "generateResponse st prompt ps locationId =
     (if includesTag (dataTypes ps) ''temperature'' \<or> includesTag (dataTypes ps) ''rainfall''
      then weatherTemplate (locationName st locationId) ps
      else if includesTag (dataTypes ps) ''population''
                \<or> includesTag (dataTypes ps) ''demographics''
      then demographicsTemplate (locationName st locationId)
      else genericTemplate (locationName st locationId) prompt)"

section \<open>The visualization builder\<close>

text \<open>
  The object literals of \<^verbatim>\<open>generateVisualizationData\<close> as JSON values, properties in source
  order; \<^verbatim>\<open>null\<close> is \<^const>\<open>JNull\<close>. A number is the decimal the source writes.
\<close>

definition monthLabels :: json where
  "monthLabels =
     JArray (map JString
       [''Jan'', ''Feb'', ''Mar'', ''Apr'', ''May'', ''Jun'', ''Jul'', ''Aug'', ''Sep'', ''Oct'',
        ''Nov'', ''Dec''])"

definition temperatureChart :: json where
  "temperatureChart =
     JObject
       [(''type'', JString ''line''),
        (''data'', JObject
           [(''labels'', monthLabels),
            (''datasets'', JArray
               [JObject
                  [(''label'', JString (''Average Temperature ('' @ [CHR 0xC2, CHR 0xB0] @ ''F)'')),
                   (''data'', JArray (map JNumber
                      [52, 54, 57, 60, 63, 66, 67, 68, 69, 65, 58, 53])),
                   (''borderColor'', JString ''rgb(16, 163, 127)''),
                   (''backgroundColor'', JString ''rgba(16, 163, 127, 0.1)'')]])])]"

definition rainfallChart :: json where
  "rainfallChart =
     JObject
       [(''type'', JString ''bar''),
        (''data'', JObject
           [(''labels'', monthLabels),
            (''datasets'', JArray
               [JObject
                  [(''label'', JString ''Rainfall (inches)''),
                   (''data'', JArray (map JNumber
                      [4.5, 3.8, 3.2, 1.5, 0.7, 0.2, 0.1, 0.2, 0.4, 1.8, 3.1, 4.2])),
                   (''backgroundColor'', JString ''rgba(16, 163, 127, 0.8)'')]])])]"

definition generateVisualizationData :: "string \<Rightarrow> params \<Rightarrow> json" where
  "generateVisualizationData prompt ps =
     (if includesTag (dataTypes ps) ''temperature'' then temperatureChart
      else if includesTag (dataTypes ps) ''rainfall'' then rainfallChart
      else JNull)"

section \<open>Notions used to state the properties\<close>

text \<open>Reading a property of a JSON value: \<open>None\<close> where JavaScript gives \<^verbatim>\<open>undefined\<close>.\<close>

fun field :: "string \<Rightarrow> json \<Rightarrow> json option" where
  "field k (JObject kvs) = map_of kvs k"
| "field k v = None"

text \<open>Following a path of property names into a JSON value.\<close>

fun path :: "string list \<Rightarrow> json \<Rightarrow> json option" where
  "path [] v = Some v"
| "path (k # ks) v = (case field k v of None \<Rightarrow> None | Some w \<Rightarrow> path ks w)"

text \<open>An array of exactly \<open>n\<close> strings, an array of exactly \<open>n\<close> numbers.\<close>

fun isString :: "json \<Rightarrow> bool" where
  "isString (JString s) = True"
| "isString v = False"

fun isNumber :: "json \<Rightarrow> bool" where
  "isNumber (JNumber x) = True"
| "isNumber v = False"

fun isArrayOf :: "(json \<Rightarrow> bool) \<Rightarrow> nat \<Rightarrow> json option \<Rightarrow> bool" where
  "isArrayOf P n (Some (JArray xs)) = (length xs = n \<and> list_all P xs)"
| "isArrayOf P n v = False"

text \<open>
  The descriptor shape in the specification's words:
  \<^verbatim>\<open>{ type: "line" | "bar", labels: string[12], series: [{ label: string, values: number[12] }] }\<close>.
\<close>

definition specSeriesShape :: "json \<Rightarrow> bool" where
  "specSeriesShape v =
     (pred_option isString (field ''label'' v) \<and> field ''label'' v \<noteq> None
      \<and> isArrayOf isNumber 12 (field ''values'' v))"

definition specChartShape :: "json \<Rightarrow> bool" where
  "specChartShape v =
     (field ''type'' v \<in> {Some (JString ''line''), Some (JString ''bar'')}
      \<and> isArrayOf isString 12 (field ''labels'' v)
      \<and> isArrayOf specSeriesShape 1 (field ''series'' v))"

text \<open>
  The descriptor shape the code builds:
  \<^verbatim>\<open>{ type: "line" | "bar", data: { labels: string[12], datasets: [{ label: string, data: number[12] }] } }\<close>.
\<close>

definition datasetShape :: "json \<Rightarrow> bool" where
  "datasetShape v =
     (pred_option isString (field ''label'' v) \<and> field ''label'' v \<noteq> None
      \<and> isArrayOf isNumber 12 (field ''data'' v))"

definition chartShape :: "json \<Rightarrow> bool" where
  "chartShape v =
     (field ''type'' v \<in> {Some (JString ''line''), Some (JString ''bar'')}
      \<and> isArrayOf isString 12 (path [''data'', ''labels''] v)
      \<and> isArrayOf datasetShape 1 (path [''data'', ''datasets''] v))"

text \<open>
  The year clause in the specification's words: each year field is interpolated when it is
  present, and nothing is written when neither is.
\<close>

definition specYearClause :: "params \<Rightarrow> string" where
  "specYearClause ps =
     (case startYear ps of Some y \<Rightarrow> '' from '' @ y | None \<Rightarrow> [])
     @ (case endYear ps of Some y \<Rightarrow> '' to '' @ y | None \<Rightarrow> [])"

text \<open>A store for examples: the fresh store after one location has been created.\<close>

definition sanFrancisco :: InsertLocation where
  "sanFrancisco =
     \<lparr>il_name = ''San Francisco'', il_latitude = Some ''37.7749'',
      il_longitude = Some ''-122.4194'', il_type = ''manual''\<rparr>"

definition exampleStore :: MemStorage where
  "exampleStore = snd (createLocation newMemStorage sanFrancisco 0)"

text \<open>
  A run of the store: any sequence of calls of its three creating methods, each with the
  time at which it is made, returning the rows the calls returned, in order, and the store
  they leave.
\<close>

datatype storeCall =
    CallCreateLocation InsertLocation nat
  | CallCreateQuery InsertQuery nat
  | CallCreateConversation InsertConversation nat

datatype created =
    NewLocation Location
  | NewQuery Query
  | NewConversation Conversation

fun call :: "MemStorage \<Rightarrow> storeCall \<Rightarrow> created \<times> MemStorage" where
  "call st (CallCreateLocation insertLocation now) =
     (case createLocation st insertLocation now of (l, st1) \<Rightarrow> (NewLocation l, st1))"
| "call st (CallCreateQuery insertQuery now) =
     (case createQuery st insertQuery now of (q, st1) \<Rightarrow> (NewQuery q, st1))"
| "call st (CallCreateConversation insertConversation now) =
     (case createConversation st insertConversation now of
        (c, st1) \<Rightarrow> (NewConversation c, st1))"

fun run :: "MemStorage \<Rightarrow> storeCall list \<Rightarrow> created list \<times> MemStorage" where
  "run st [] = ([], st)"
| "run st (x # xs) =
     (case call st x of
        (c, st1) \<Rightarrow> (case run st1 xs of (cs, st2) \<Rightarrow> (c # cs, st2)))"

fun createdLocations :: "created list \<Rightarrow> Location list" where
  "createdLocations [] = []"
| "createdLocations (NewLocation l # cs) = l # createdLocations cs"
| "createdLocations (c # cs) = createdLocations cs"

fun createdQueries :: "created list \<Rightarrow> Query list" where
  "createdQueries [] = []"
| "createdQueries (NewQuery q # cs) = q # createdQueries cs"
| "createdQueries (c # cs) = createdQueries cs"

fun createdConversations :: "created list \<Rightarrow> Conversation list" where
  "createdConversations [] = []"
| "createdConversations (NewConversation c # cs) = c # createdConversations cs"
| "createdConversations (c # cs) = createdConversations cs"

text \<open>A run for examples: two locations, a query and a conversation in between.\<close>

definition exampleCalls :: "storeCall list" where
  "exampleCalls =
     [CallCreateLocation sanFrancisco 10,
      CallCreateQuery
        \<lparr>iq_locationId = 1, iq_prompt = ''hello'', iq_extractedParams = emptyParams,
         iq_response = Some ''hi'', iq_visualizationData = JNull\<rparr> 20,
      CallCreateConversation \<lparr>ic_locationId = 1, ic_sessionId = ''s1''\<rparr> 30,
      CallCreateLocation (sanFrancisco\<lparr>il_name := ''London''\<rparr>) 40]"

text \<open>
  The notions of the year rule in the specification's words. A four-digit run is a string
  of exactly four digits; a string contains one when some position of it starts one.
  White space is any sequence of white-space characters. A second run follows a text when
  the text is white space, then the word \<open>to\<close>, a hyphen or nothing, then white space,
  then a four-digit run, then anything.
\<close>

definition fourDigitRun :: "string \<Rightarrow> bool" where
  "fourDigitRun d = (length d = 4 \<and> list_all isDigit d)"

fun hasFourDigitRun :: "string \<Rightarrow> bool" where
  "hasFourDigitRun [] = False"
| "hasFourDigitRun (c # cs) = (fourDigitRun (take 4 (c # cs)) \<or> hasFourDigitRun cs)"

definition spaces :: "string \<Rightarrow> bool" where
  "spaces ws = (\<exists>ts. set ts \<subseteq> set whiteSpace \<and> ws = concat ts)"

definition secondRun :: "string \<Rightarrow> string \<Rightarrow> bool" where
  "secondRun post e =
     (\<exists>ws1 sep ws2 rest.
        post = ws1 @ sep @ ws2 @ e @ rest \<and> spaces ws1 \<and> sep \<in> {[], ''to'', ''-''}
        \<and> spaces ws2 \<and> fourDigitRun e)"

text \<open>
  A run of exactly four digits, read as a whole digit sequence: the digit runs of a string
  are its maximal blocks of consecutive digits, and the string has a run of exactly four
  digits when one of these blocks has length four.
\<close>

fun digitRunsFrom :: "string \<Rightarrow> string \<Rightarrow> string list" where
  "digitRunsFrom cur [] = (if cur = [] then [] else [cur])"
| "digitRunsFrom cur (c # cs) =
     (if isDigit c then digitRunsFrom (cur @ [c]) cs
      else (if cur = [] then [] else [cur]) @ digitRunsFrom [] cs)"

definition digitRuns :: "string \<Rightarrow> string list" where
  "digitRuns s = digitRunsFrom [] s"

definition hasExactFourDigitRun :: "string \<Rightarrow> bool" where
  "hasExactFourDigitRun s = list_ex (\<lambda>r. length r = 4) (digitRuns s)"

section \<open>Properties of the parameter extractor\<close>

lemma toString_nonempty: "toString n \<noteq> []"
  by (subst toString.simps) simp

lemma fourDigits_Some:
  "fourDigits s = Some (d, r) \<Longrightarrow> s = d @ r \<and> length d = 4 \<and> (\<forall>c\<in>set d. isDigit c)"
  by (cases s rule: fourDigits.cases) (auto split: if_splits)

lemma matchHere_Some:
  "matchHere s = Some (y1, y2) \<Longrightarrow> length y1 = 4 \<and> (\<forall>y. y2 = Some y \<longrightarrow> length y = 4)"
  by (auto simp: matchHere_def split: option.splits dest!: fourDigits_Some)

lemma yearMatch_Some:
  "yearMatch s = Some (y1, y2) \<Longrightarrow> length y1 = 4 \<and> (\<forall>y. y2 = Some y \<longrightarrow> length y = 4)"
  by (induction s) (auto split: option.splits dest: matchHere_Some)

lemma extractDataTypes_years [simp]:
  "startYear (extractDataTypes p ps) = startYear ps"
  "endYear (extractDataTypes p ps) = endYear ps"
  by (simp_all add: extractDataTypes_def Let_def)

lemma extractAggregation_fields [simp]:
  "startYear (extractAggregation p ps) = startYear ps"
  "endYear (extractAggregation p ps) = endYear ps"
  "dataTypes (extractAggregation p ps) = dataTypes ps"
  by (simp_all add: extractAggregation_def Let_def)

lemma extractYears_dataTypes [simp]:
  "dataTypes (extractYears y p ps) = dataTypes ps"
  by (simp add: extractYears_def split: option.splits)

lemma orElse_nonempty: "b \<noteq> [] \<Longrightarrow> orElse a b \<noteq> []"
  by (simp add: orElse_def split: option.splits)

text \<open>
  Claim C1, as stated: for the prompt \<open>temperature and rainfall\<close> the extractor returns
  \<open>dataTypes\<close> equal to the one-element array holding \<open>rainfall\<close>. The code does not:
  the result is a different array.
\<close>

theorem temperature_and_rainfall_not_only_rainfall:
  "dataTypes (extractParameters 2026 ''temperature and rainfall'') \<noteq> Some [''rainfall'']"
  by (simp add: extractParameters_def extractDataTypes_def toLowerCase_def toLowerChar_def
      Let_def)

text \<open>
  Claim C1, amended: for the prompt \<open>temperature and rainfall\<close> the extractor returns
  \<open>dataTypes\<close> equal to the array of \<open>temperature\<close> and \<open>rainfall\<close>, in this order,
  whatever the current year: the rainfall check appends to the list the temperature check
  has set.
\<close>

theorem temperature_and_rainfall_appends:
  "dataTypes (extractParameters fullYear ''temperature and rainfall'')
     = Some [''temperature'', ''rainfall'']"
  by (simp add: extractParameters_def extractDataTypes_def toLowerCase_def toLowerChar_def
      Let_def)

text \<open>
  Claim C10: for every prompt, the extractor sets \<open>startYear\<close> exactly when it sets
  \<open>endYear\<close>, and on its result the weather sentence has its \<open>from\<close> piece exactly when
  it has its \<open>to\<close> piece, so the year clause never shows one bound alone.
\<close>

theorem extractParameters_years_together:
  "(startYear (extractParameters fullYear prompt) = None
      \<longleftrightarrow> endYear (extractParameters fullYear prompt) = None)
   \<and> (fromClause (extractParameters fullYear prompt) = []
      \<longleftrightarrow> toClause (extractParameters fullYear prompt) = [])"
proof (cases "yearMatch prompt")
  case None
  then show ?thesis
    by (simp add: extractParameters_def extractYears_def emptyParams_def fromClause_def
        toClause_def)
next
  case (Some m)
  obtain y1 y2 where m: "m = (y1, y2)" by (cases m)
  from Some m have "length y1 = 4"
    using yearMatch_Some by blast
  then have "y1 \<noteq> []" by auto
  moreover have "orElse y2 (toString fullYear) \<noteq> []"
    by (rule orElse_nonempty) (rule toString_nonempty)
  ultimately show ?thesis
    using Some m
    by (simp add: extractParameters_def extractYears_def fromClause_def toClause_def)
qed

section \<open>Properties of the visualization builder\<close>

lemma temperatureChart_shape: "chartShape temperatureChart"
  by (simp add: chartShape_def datasetShape_def temperatureChart_def monthLabels_def)

lemma rainfallChart_shape: "chartShape rainfallChart"
  by (simp add: chartShape_def datasetShape_def rainfallChart_def monthLabels_def)

text \<open>
  Claim C4: the visualization builder checks \<open>temperature\<close> before \<open>rainfall\<close> and the
  first match wins. Whenever \<open>dataTypes\<close> contains \<open>temperature\<close> the result is the
  line chart, with the twelve month labels and the twelve fixed temperature values;
  otherwise, when it contains \<open>rainfall\<close>, the result is the bar chart, with the twelve
  month labels and the twelve fixed rainfall values; otherwise the result is \<open>null\<close>.
\<close>

theorem visualization_first_match:
  "(includesTag (dataTypes ps) ''temperature'' \<longrightarrow>
      generateVisualizationData prompt ps = temperatureChart)
   \<and> (\<not> includesTag (dataTypes ps) ''temperature'' \<and> includesTag (dataTypes ps) ''rainfall'' \<longrightarrow>
      generateVisualizationData prompt ps = rainfallChart)
   \<and> (\<not> includesTag (dataTypes ps) ''temperature'' \<and> \<not> includesTag (dataTypes ps) ''rainfall'' \<longrightarrow>
      generateVisualizationData prompt ps = JNull)
   \<and> field ''type'' temperatureChart = Some (JString ''line'')
   \<and> path [''data'', ''labels''] temperatureChart
       = Some (JArray (map JString [''Jan'', ''Feb'', ''Mar'', ''Apr'', ''May'', ''Jun'', ''Jul'',
            ''Aug'', ''Sep'', ''Oct'', ''Nov'', ''Dec'']))
   \<and> (\<exists>series. path [''data'', ''datasets''] temperatureChart = Some (JArray [series])
        \<and> field ''data'' series
           = Some (JArray (map JNumber [52, 54, 57, 60, 63, 66, 67, 68, 69, 65, 58, 53])))
   \<and> field ''type'' rainfallChart = Some (JString ''bar'')
   \<and> path [''data'', ''labels''] rainfallChart
       = Some (JArray (map JString [''Jan'', ''Feb'', ''Mar'', ''Apr'', ''May'', ''Jun'', ''Jul'',
            ''Aug'', ''Sep'', ''Oct'', ''Nov'', ''Dec'']))
   \<and> (\<exists>series. path [''data'', ''datasets''] rainfallChart = Some (JArray [series])
        \<and> field ''data'' series
           = Some (JArray (map JNumber
                [4.5, 3.8, 3.2, 1.5, 0.7, 0.2, 0.1, 0.2, 0.4, 1.8, 3.1, 4.2])))
   \<and> temperatureChart \<noteq> JNull \<and> rainfallChart \<noteq> JNull \<and> temperatureChart \<noteq> rainfallChart"
  by (simp add: generateVisualizationData_def temperatureChart_def rainfallChart_def
      monthLabels_def)

theorem visualization_first_match_witness:
  "generateVisualizationData ''both''
      (emptyParams\<lparr>dataTypes := Some [''temperature'', ''rainfall'']\<rparr>) = temperatureChart
   \<and> generateVisualizationData ''rain''
      (emptyParams\<lparr>dataTypes := Some [''rainfall'']\<rparr>) = rainfallChart
   \<and> generateVisualizationData ''people''
      (emptyParams\<lparr>dataTypes := Some [''population'']\<rparr>) = JNull"
  using visualization_first_match
          [of "emptyParams\<lparr>dataTypes := Some [''temperature'', ''rainfall'']\<rparr>" "''both''"]
        visualization_first_match
          [of "emptyParams\<lparr>dataTypes := Some [''rainfall'']\<rparr>" "''rain''"]
        visualization_first_match
          [of "emptyParams\<lparr>dataTypes := Some [''population'']\<rparr>" "''people''"]
  by (simp add: includesTag_def emptyParams_def)

text \<open>
  Claim C5, as stated: every chart descriptor has a top-level \<open>labels\<close> array of twelve
  strings and a \<open>series\<close> array whose single element has the fields \<open>label\<close> and
  \<open>values\<close>. The descriptor built for \<open>temperature\<close> is a chart and has neither a
  \<open>labels\<close> nor a \<open>series\<close> property.
\<close>

theorem temperature_descriptor_not_spec_shape:
  "generateVisualizationData ''temperature''
      (emptyParams\<lparr>dataTypes := Some [''temperature'']\<rparr>) \<noteq> JNull
   \<and> \<not> specChartShape (generateVisualizationData ''temperature''
      (emptyParams\<lparr>dataTypes := Some [''temperature'']\<rparr>))
   \<and> field ''labels'' (generateVisualizationData ''temperature''
      (emptyParams\<lparr>dataTypes := Some [''temperature'']\<rparr>)) = None
   \<and> field ''series'' (generateVisualizationData ''temperature''
      (emptyParams\<lparr>dataTypes := Some [''temperature'']\<rparr>)) = None"
  by (simp add: generateVisualizationData_def includesTag_def emptyParams_def
      temperatureChart_def specChartShape_def)

text \<open>
  Claim C5, amended: every chart descriptor the visualization builder produces has a
  \<open>type\<close> that is \<open>line\<close> or \<open>bar\<close> and a \<open>data\<close> object holding a \<open>labels\<close> array of
  twelve strings and a \<open>datasets\<close> array whose single element has a string \<open>label\<close> and
  a \<open>data\<close> array of twelve numbers.
\<close>

theorem descriptor_shape:
  "generateVisualizationData prompt ps \<noteq> JNull \<longrightarrow>
     chartShape (generateVisualizationData prompt ps)"
  by (simp add: generateVisualizationData_def temperatureChart_shape rainfallChart_shape)

theorem descriptor_shape_witness:
  "generateVisualizationData ''rain'' (emptyParams\<lparr>dataTypes := Some [''rainfall'']\<rparr>) \<noteq> JNull
   \<and> chartShape (generateVisualizationData ''rain''
        (emptyParams\<lparr>dataTypes := Some [''rainfall'']\<rparr>))"
  using descriptor_shape [of "''rain''" "emptyParams\<lparr>dataTypes := Some [''rainfall'']\<rparr>"]
  by (simp add: generateVisualizationData_def includesTag_def emptyParams_def rainfallChart_def)

section \<open>Properties of the response selector\<close>

lemma weatherTemplate_title:
  \<open>sublist (''Weather Analysis for '' @ n @ ''</h3>'') (weatherTemplate n ps)\<close>
  unfolding sublist_def weatherTemplate_def
  apply (rule exI [of _ \<open>newline @ ''      <div class="mb-4">'' @ newline @ ''        <h3 class="font-semibold mb-2 text-lg">''\<close>])
  apply (simp add: weatherHead_def weatherSentence_def)
  done

lemma weatherBody_found: \<open>prefix '', here's what I found:'' weatherBody\<close>
  by (simp add: weatherBody_def)

lemma weatherTemplate_sentence:
  \<open>sublist (''Based on historical data'' @ fromClause ps @ toClause ps @ '', here's what I found:'') (weatherTemplate n ps)\<close>
  unfolding sublist_def weatherTemplate_def
  apply (rule exI [of _ \<open>weatherHead @ n @ ''</h3>'' @ newline @ ''        <p class="text-gray-700">''\<close>])
  using weatherBody_found
  apply (clarsimp simp add: weatherSentence_def prefix_def)
  done

lemma demographicsTemplate_title:
  \<open>sublist (''Demographics Analysis for '' @ n @ ''</h3>'') (demographicsTemplate n)\<close>
  unfolding sublist_def demographicsTemplate_def
  apply (rule exI [of _ \<open>newline @ ''      <div class="mb-4">'' @ newline @ ''        <h3 class="font-semibold mb-2 text-lg">''\<close>])
  apply (rule exI [of _ \<open>drop 5 demographicsBody\<close>])
  apply (simp add: demographicsHead_def)
  apply (simp add: demographicsBody_def)
  done

lemma genericTemplate_title:
  \<open>sublist (''Geographic Analysis for '' @ n @ ''</h3>'') (genericTemplate n p)\<close>
  unfolding sublist_def genericTemplate_def
  apply (rule exI [of _ \<open>newline @ ''    <div class="mb-4">'' @ newline @ ''      <h3 class="font-semibold mb-2 text-lg">''\<close>])
  apply (simp add: genericHead_def genericRequest_def)
  done

lemma genericBody_quote: \<open>prefix ''"</p>'' genericBody\<close>
  by (simp add: genericBody_def)

lemma genericTemplate_request:
  \<open>sublist (''I've analyzed your request: "'' @ p @ ''"</p>'') (genericTemplate n p)\<close>
  unfolding sublist_def genericTemplate_def
  apply (rule exI [of _ \<open>genericHead @ n @ ''</h3>'' @ newline @ ''      <p class="text-gray-700">''\<close>])
  using genericBody_quote
  apply (clarsimp simp add: genericRequest_def prefix_def)
  done

lemma templates_distinct:
  "weatherTemplate n ps \<noteq> demographicsTemplate n'"
  "weatherTemplate n ps \<noteq> genericTemplate n' p"
  "demographicsTemplate n \<noteq> genericTemplate n' p"
  by (simp_all add: weatherTemplate_def demographicsTemplate_def genericTemplate_def
      weatherHead_def demographicsHead_def genericHead_def)

lemma templates_nonempty:
  "weatherTemplate n ps \<noteq> []" "demographicsTemplate n \<noteq> []" "genericTemplate n p \<noteq> []"
  by (simp_all add: weatherTemplate_def demographicsTemplate_def genericTemplate_def
      weatherHead_def demographicsHead_def genericHead_def)

lemma specYearClause_eq:
  "startYear ps \<noteq> Some [] \<Longrightarrow> endYear ps \<noteq> Some [] \<Longrightarrow>
     fromClause ps @ toClause ps = specYearClause ps"
  by (simp add: fromClause_def toClause_def specYearClause_def split: option.splits)

text \<open>
  Claim C3: the response selector tries its rules in a fixed order and the choice depends
  on \<open>dataTypes\<close> alone. For every parameter record with \<open>temperature\<close> or
  \<open>rainfall\<close> among its \<open>dataTypes\<close>, the result is the weather template, which names
  the location and states in its sentence the year fields that are present (a year field
  of a parameter record is a year string, hence not empty), and no year clause when
  neither is present; otherwise, with \<open>population\<close> or \<open>demographics\<close>, it is the
  demographics template; otherwise it is the generic template. The three templates never
  give the same text.
\<close>

theorem response_selector_branches:
    "(includesTag (dataTypes ps) ''temperature'' \<or> includesTag (dataTypes ps) ''rainfall'' \<longrightarrow>
        generateResponse st prompt ps lid = weatherTemplate (locationName st lid) ps
        \<and> sublist (''Weather Analysis for '' @ locationName st lid @ ''</h3>'')
            (generateResponse st prompt ps lid)
        \<and> (startYear ps \<noteq> Some [] \<and> endYear ps \<noteq> Some [] \<longrightarrow>
             sublist
               (''Based on historical data'' @ specYearClause ps @ '', here's what I found:'')
               (generateResponse st prompt ps lid))
        \<and> (startYear ps = None \<and> endYear ps = None \<longrightarrow>
             sublist ''Based on historical data, here's what I found:''
               (generateResponse st prompt ps lid)))
     \<and> (\<not> (includesTag (dataTypes ps) ''temperature'' \<or> includesTag (dataTypes ps) ''rainfall'')
        \<and> (includesTag (dataTypes ps) ''population''
             \<or> includesTag (dataTypes ps) ''demographics'') \<longrightarrow>
        generateResponse st prompt ps lid = demographicsTemplate (locationName st lid)
        \<and> sublist (''Demographics Analysis for '' @ locationName st lid @ ''</h3>'')
            (generateResponse st prompt ps lid))
     \<and> (\<not> (includesTag (dataTypes ps) ''temperature'' \<or> includesTag (dataTypes ps) ''rainfall'')
        \<and> \<not> (includesTag (dataTypes ps) ''population''
             \<or> includesTag (dataTypes ps) ''demographics'') \<longrightarrow>
        generateResponse st prompt ps lid = genericTemplate (locationName st lid) prompt
        \<and> sublist (''Geographic Analysis for '' @ locationName st lid @ ''</h3>'')
            (generateResponse st prompt ps lid))
     \<and> weatherTemplate n1 ps1 \<noteq> demographicsTemplate n2
     \<and> weatherTemplate n1 ps1 \<noteq> genericTemplate n3 p3
     \<and> demographicsTemplate n2 \<noteq> genericTemplate n3 p3"
proof -
  have sentence:
    "sublist (''Based on historical data'' @ specYearClause ps @ '', here's what I found:'')
       (weatherTemplate n ps)"
    if "startYear ps \<noteq> Some [] \<and> endYear ps \<noteq> Some []" for n
    using weatherTemplate_sentence [of ps n] specYearClause_eq [of ps] that
    by (simp flip: append_assoc)
  have none: "startYear ps = None \<and> endYear ps = None \<longrightarrow>
      sublist ''Based on historical data, here's what I found:'' (weatherTemplate n ps)" for n
    using sentence [of n] by (auto simp: specYearClause_def)
  show ?thesis
    using sentence none
    by (simp add: generateResponse_def weatherTemplate_title demographicsTemplate_title
        genericTemplate_title templates_distinct del: append.simps)
qed

text \<open>
  Claim C7: whenever \<open>dataTypes\<close> contains none of \<open>temperature\<close>, \<open>rainfall\<close>,
  \<open>population\<close> and \<open>demographics\<close>, the response contains the prompt unchanged,
  between the quotation marks of the request sentence: nothing is escaped.
\<close>

theorem generic_embeds_prompt:
  assumes "\<not> includesTag (dataTypes ps) ''temperature''"
    and "\<not> includesTag (dataTypes ps) ''rainfall''"
    and "\<not> includesTag (dataTypes ps) ''population''"
    and "\<not> includesTag (dataTypes ps) ''demographics''"
  shows \<open>sublist (''I've analyzed your request: "'' @ prompt @ ''"</p>'')
            (generateResponse st prompt ps lid)
         \<and> sublist prompt (generateResponse st prompt ps lid)\<close>
proof -
  have r: "generateResponse st prompt ps lid = genericTemplate (locationName st lid) prompt"
    using assms by (simp add: generateResponse_def)
  have \<open>sublist prompt (''I've analyzed your request: "'' @ prompt @ ''"</p>'')\<close>
    by (rule sublist_appendI)
  then show ?thesis
    using genericTemplate_request [of prompt "locationName st lid"] r
    by (auto intro: sublist_order.order_trans simp del: append.simps)
qed

text \<open>
  Claim C6: the three functions are total on every prompt. None of the operations they
  apply to a string can throw, so the functions above have no error result; for every
  prompt the response is a non-empty string (for every parameter record, and so for the
  extracted one), the extracted fields take one of their few possible values, the
  visualization is \<open>null\<close> or one of the two charts, and the empty prompt gives the
  empty record.
\<close>

theorem core_functions_total:
  "generateResponse st prompt (extractParameters fullYear prompt) lid \<noteq> []
   \<and> generateResponse st prompt ps lid \<noteq> []
   \<and> dataTypes (extractParameters fullYear prompt)
       \<in> {None, Some [''temperature''], Some [''rainfall''], Some [''temperature'', ''rainfall''],
          Some [''population''], Some [''demographics'']}
   \<and> aggregation (extractParameters fullYear prompt) \<in> {None, Some ''average''}
   \<and> timeframe (extractParameters fullYear prompt) \<in> {None, Some ''monthly'', Some ''yearly''}
   \<and> generateVisualizationData prompt (extractParameters fullYear prompt)
       \<in> {JNull, temperatureChart, rainfallChart}
   \<and> extractParameters fullYear [] = emptyParams"
proof -
  have nonempty: "generateResponse st prompt qs lid \<noteq> []" for qs
    by (simp add: generateResponse_def templates_nonempty)
  have dts: "dataTypes (extractParameters fullYear prompt)
       \<in> {None, Some [''temperature''], Some [''rainfall''], Some [''temperature'', ''rainfall''],
          Some [''population''], Some [''demographics'']}"
    by (simp add: extractParameters_def extractDataTypes_def emptyParams_def Let_def)
  have agg: "aggregation (extractParameters fullYear prompt) \<in> {None, Some ''average''}"
    by (simp add: extractParameters_def extractAggregation_def extractDataTypes_def
        extractYears_def emptyParams_def Let_def split: option.splits)
  have tf: "timeframe (extractParameters fullYear prompt)
       \<in> {None, Some ''monthly'', Some ''yearly''}"
    by (simp add: extractParameters_def extractAggregation_def extractDataTypes_def
        extractYears_def emptyParams_def Let_def split: option.splits)
  have vis: "generateVisualizationData prompt (extractParameters fullYear prompt)
       \<in> {JNull, temperatureChart, rainfallChart}"
    by (simp add: generateVisualizationData_def)
  have empty: "extractParameters fullYear [] = emptyParams"
    by (simp add: extractParameters_def extractAggregation_def extractDataTypes_def
        extractYears_def toLowerCase_def Let_def)
  show ?thesis
    using nonempty dts agg tf vis empty by blast
qed


lemma exampleStore_name: "locationName exampleStore (Suc 0) = ''San Francisco''"
  by (simp add: locationName_def getLocation_def exampleStore_def createLocation_def
      newMemStorage_def sanFrancisco_def Let_def)

lemma exampleStore_missing: "locationName exampleStore 7 = ''the selected location''"
  by (simp add: locationName_def getLocation_def exampleStore_def createLocation_def
      newMemStorage_def sanFrancisco_def Let_def)

theorem response_selector_branches_witness:
  "sublist ''Weather Analysis for San Francisco</h3>''
     (generateResponse exampleStore ''Show me rainfall patterns from 2001 to 2020''
        (extractParameters 2026 ''Show me rainfall patterns from 2001 to 2020'') 1)
   \<and> sublist ''Based on historical data from 2001 to 2020, here's what I found:''
     (generateResponse exampleStore ''Show me rainfall patterns from 2001 to 2020''
        (extractParameters 2026 ''Show me rainfall patterns from 2001 to 2020'') 1)
   \<and> generateResponse exampleStore ''Population, please'' (extractParameters 2026 ''Population, please'') 1
       = demographicsTemplate ''San Francisco''
   \<and> generateResponse exampleStore ''hello'' (extractParameters 2026 ''hello'') 7
       = genericTemplate ''the selected location'' ''hello''"
proof -
  have e1: "extractParameters 2026 ''Show me rainfall patterns from 2001 to 2020''
      = \<lparr>startYear = Some ''2001'', endYear = Some ''2020'', dataTypes = Some [''rainfall''],
         aggregation = None, timeframe = None\<rparr>"
    by code_simp
  have e2: "extractParameters 2026 ''Population, please''
      = \<lparr>startYear = None, endYear = None, dataTypes = Some [''population''],
         aggregation = None, timeframe = None\<rparr>"
    by code_simp
  have e3: "extractParameters 2026 ''hello'' = emptyParams"
    by code_simp
  show ?thesis
    using response_selector_branches
            [where ps = "extractParameters 2026 ''Show me rainfall patterns from 2001 to 2020''"
               and st = exampleStore
               and prompt = "''Show me rainfall patterns from 2001 to 2020''" and lid = 1]
          response_selector_branches
            [where ps = "extractParameters 2026 ''Population, please''" and st = exampleStore
               and prompt = "''Population, please''" and lid = 1]
          response_selector_branches
            [where ps = "extractParameters 2026 ''hello''" and st = exampleStore
               and prompt = "''hello''" and lid = 7]
    by (auto simp add: e1 e2 e3 emptyParams_def includesTag_def specYearClause_def
        exampleStore_name exampleStore_missing)
qed

theorem generic_embeds_prompt_witness:
  "sublist ''<script>alert(1)</script>''
     (generateResponse exampleStore ''<script>alert(1)</script>''
        (extractParameters 2026 ''<script>alert(1)</script>'') 1)"
proof -
  have e: "extractParameters 2026 ''<script>alert(1)</script>'' = emptyParams"
    by code_simp
  show ?thesis
    using generic_embeds_prompt
            [where ps = "extractParameters 2026 ''<script>alert(1)</script>''"
               and st = exampleStore and prompt = "''<script>alert(1)</script>''" and lid = 1]
    by (simp add: e emptyParams_def includesTag_def)
qed

lemma extractAggregation_endYear:
  "(extractAggregation p ps)\<lparr>endYear := e\<rparr> = extractAggregation p (ps\<lparr>endYear := e\<rparr>)"
  by (simp add: extractAggregation_def Let_def)

lemma extractDataTypes_endYear:
  "(extractDataTypes p ps)\<lparr>endYear := e\<rparr> = extractDataTypes p (ps\<lparr>endYear := e\<rparr>)"
  by (simp add: extractDataTypes_def Let_def)

lemma extractYears_endYear:
  "(extractYears y p ps)\<lparr>endYear := e\<rparr> = (extractYears y' p ps)\<lparr>endYear := e\<rparr>"
  by (simp add: extractYears_def split: option.splits)

text \<open>
  Claim C8: each of the three functions is determined by its input. The extractor depends
  on the prompt and the pinned current year only, and on the year only through
  \<open>endYear\<close>; the response selector depends on the store only through the location it
  looks up; the visualization builder depends on the parameters only.
\<close>

theorem core_functions_deterministic:
  "(fullYear = fullYear' \<and> prompt = prompt' \<longrightarrow>
      extractParameters fullYear prompt = extractParameters fullYear' prompt')
   \<and> (getLocation st lid = getLocation st' lid \<and> prompt = prompt' \<and> ps = ps' \<longrightarrow>
      generateResponse st prompt ps lid = generateResponse st' prompt' ps' lid)
   \<and> (ps = ps' \<longrightarrow> generateVisualizationData prompt ps = generateVisualizationData prompt' ps')
   \<and> (extractParameters fullYear prompt)\<lparr>endYear := e\<rparr>
       = (extractParameters fullYear' prompt)\<lparr>endYear := e\<rparr>"
proof -
  have "(extractParameters fullYear prompt)\<lparr>endYear := e\<rparr>
       = (extractParameters fullYear' prompt)\<lparr>endYear := e\<rparr>"
    unfolding extractParameters_def extractAggregation_endYear extractDataTypes_endYear
    by (simp add: extractYears_endYear [where y = fullYear and y' = fullYear'])
  then show ?thesis
    by (simp add: generateResponse_def locationName_def generateVisualizationData_def)
qed

theorem core_functions_deterministic_witness:
  "extractParameters 2026 ''population trends 1990'' = extractParameters 2026 ''population trends 1990''
   \<and> generateResponse exampleStore ''population trends 1990'' emptyParams 1
       = generateResponse (snd (createLocation exampleStore sanFrancisco 5))
           ''population trends 1990'' emptyParams 1
   \<and> generateVisualizationData ''a'' emptyParams = generateVisualizationData ''b'' emptyParams
   \<and> endYear (extractParameters 2025 ''population trends 1990'')
       \<noteq> endYear (extractParameters 2026 ''population trends 1990'')"
proof -
  have g: "getLocation exampleStore 1
      = getLocation (snd (createLocation exampleStore sanFrancisco 5)) 1"
    by (simp add: getLocation_def exampleStore_def createLocation_def newMemStorage_def Let_def)
  have e5: "endYear (extractParameters 2025 ''population trends 1990'') = Some ''2025''"
    by code_simp
  have e6: "endYear (extractParameters 2026 ''population trends 1990'') = Some ''2026''"
    by code_simp
  show ?thesis
    using core_functions_deterministic
            [where fullYear = 2026 and fullYear' = 2026
               and prompt = "''population trends 1990''"
               and prompt' = "''population trends 1990''" and st = exampleStore and lid = 1
               and st' = "snd (createLocation exampleStore sanFrancisco 5)"
               and ps = emptyParams and ps' = emptyParams]
          core_functions_deterministic
            [where prompt = "''a''" and prompt' = "''b''" and ps = emptyParams
               and ps' = emptyParams]
          g e5 e6
    by simp
qed

section \<open>Properties of the record store\<close>

lemma call_locations:
  assumes "call st x = (c, st1)"
  shows "currentLocationId st \<le> currentLocationId st1
    \<and> (\<forall>k<currentLocationId st. map_of (locations st1) k = map_of (locations st) k)
    \<and> (\<forall>l. c = NewLocation l \<longrightarrow>
          l_id l = currentLocationId st \<and> currentLocationId st1 = Suc (currentLocationId st)
          \<and> map_of (locations st1) (l_id l) = Some l)"
  using assms
  by (cases x)
     (auto simp: createLocation_def createQuery_def createConversation_def Let_def update_conv')

lemma call_queries:
  assumes "call st x = (c, st1)"
  shows "currentQueryId st \<le> currentQueryId st1
    \<and> (\<forall>k<currentQueryId st. map_of (queries st1) k = map_of (queries st) k)
    \<and> (\<forall>q. c = NewQuery q \<longrightarrow>
          q_id q = currentQueryId st \<and> currentQueryId st1 = Suc (currentQueryId st)
          \<and> map_of (queries st1) (q_id q) = Some q)"
  using assms
  by (cases x)
     (auto simp: createLocation_def createQuery_def createConversation_def Let_def update_conv')

lemma call_conversations:
  assumes "call st x = (c, st1)"
  shows "currentConversationId st \<le> currentConversationId st1
    \<and> (\<forall>k<currentConversationId st.
          map_of (conversations st1) k = map_of (conversations st) k)
    \<and> (\<forall>v. c = NewConversation v \<longrightarrow>
          c_id v = currentConversationId st
          \<and> currentConversationId st1 = Suc (currentConversationId st)
          \<and> map_of (conversations st1) (c_id v) = Some v)"
  using assms
  by (cases x)
     (auto simp: createLocation_def createQuery_def createConversation_def Let_def update_conv')

lemma run_locations:
  "run st xs = (cs, st') \<Longrightarrow>
     currentLocationId st \<le> currentLocationId st'
     \<and> (\<forall>k<currentLocationId st. map_of (locations st') k = map_of (locations st) k)
     \<and> sorted_wrt (<) (map l_id (createdLocations cs))
     \<and> (\<forall>l\<in>set (createdLocations cs).
          currentLocationId st \<le> l_id l \<and> l_id l < currentLocationId st'
          \<and> map_of (locations st') (l_id l) = Some l)"
proof (induction xs arbitrary: st cs)
  case Nil
  then show ?case by simp
next
  case (Cons x xs)
  obtain c st1 where c: "call st x = (c, st1)" by (cases "call st x")
  obtain cs1 where r: "run st1 xs = (cs1, st')" and cs: "cs = c # cs1"
    using Cons.prems c by (auto split: prod.splits)
  note ih = Cons.IH [OF r]
  note step = call_locations [OF c]
  show ?case
  proof (cases c)
    case (NewLocation l)
    with step have l: "l_id l = currentLocationId st"
      "currentLocationId st1 = Suc (currentLocationId st)"
      "map_of (locations st1) (l_id l) = Some l"
      by auto
    from ih l have "map_of (locations st') (l_id l) = Some l" by auto
    with ih step l show ?thesis
      unfolding cs NewLocation by (auto simp: less_Suc_eq_le)
  next
    case (NewQuery q)
    with ih step show ?thesis unfolding cs by auto
  next
    case (NewConversation v)
    with ih step show ?thesis unfolding cs by auto
  qed
qed

lemma run_queries:
  "run st xs = (cs, st') \<Longrightarrow>
     currentQueryId st \<le> currentQueryId st'
     \<and> (\<forall>k<currentQueryId st. map_of (queries st') k = map_of (queries st) k)
     \<and> sorted_wrt (<) (map q_id (createdQueries cs))
     \<and> (\<forall>l\<in>set (createdQueries cs).
          currentQueryId st \<le> q_id l \<and> q_id l < currentQueryId st'
          \<and> map_of (queries st') (q_id l) = Some l)"
proof (induction xs arbitrary: st cs)
  case Nil
  then show ?case by simp
next
  case (Cons x xs)
  obtain c st1 where c: "call st x = (c, st1)" by (cases "call st x")
  obtain cs1 where r: "run st1 xs = (cs1, st')" and cs: "cs = c # cs1"
    using Cons.prems c by (auto split: prod.splits)
  note ih = Cons.IH [OF r]
  note step = call_queries [OF c]
  show ?case
  proof (cases c)
    case (NewLocation l)
    with ih step show ?thesis unfolding cs by auto
  next
    case (NewQuery l)
    with step have l: "q_id l = currentQueryId st"
      "currentQueryId st1 = Suc (currentQueryId st)"
      "map_of (queries st1) (q_id l) = Some l"
      by auto
    from ih l have "map_of (queries st') (q_id l) = Some l" by auto
    with ih step l show ?thesis
      unfolding cs NewQuery by (auto simp: less_Suc_eq_le)
  next
    case (NewConversation v)
    with ih step show ?thesis unfolding cs by auto
  qed
qed


lemma run_conversations:
  "run st xs = (cs, st') \<Longrightarrow>
     currentConversationId st \<le> currentConversationId st'
     \<and> (\<forall>k<currentConversationId st. map_of (conversations st') k = map_of (conversations st) k)
     \<and> sorted_wrt (<) (map c_id (createdConversations cs))
     \<and> (\<forall>l\<in>set (createdConversations cs).
          currentConversationId st \<le> c_id l \<and> c_id l < currentConversationId st'
          \<and> map_of (conversations st') (c_id l) = Some l)"
proof (induction xs arbitrary: st cs)
  case Nil
  then show ?case by simp
next
  case (Cons x xs)
  obtain c st1 where c: "call st x = (c, st1)" by (cases "call st x")
  obtain cs1 where r: "run st1 xs = (cs1, st')" and cs: "cs = c # cs1"
    using Cons.prems c by (auto split: prod.splits)
  note ih = Cons.IH [OF r]
  note step = call_conversations [OF c]
  show ?case
  proof (cases c)
    case (NewLocation l)
    with ih step show ?thesis unfolding cs by auto
  next
    case (NewQuery q)
    with ih step show ?thesis unfolding cs by auto
  next
    case (NewConversation l)
    with step have l: "c_id l = currentConversationId st"
      "currentConversationId st1 = Suc (currentConversationId st)"
      "map_of (conversations st1) (c_id l) = Some l"
      by auto
    from ih l have "map_of (conversations st') (c_id l) = Some l" by auto
    with ih step l show ?thesis
      unfolding cs NewConversation by (auto simp: less_Suc_eq_le)
  qed
qed



text \<open>
  Claim C9: for every sequence of create calls, from any store, the ids handed out within
  each kind of row (location, query, conversation) are strictly increasing in the order of
  the calls, hence pairwise different, and at the end every row the calls returned is the
  row found under its id (and is among the rows listed for its location or session).
\<close>

theorem ids_increasing_and_retrievable:
  assumes "run st xs = (cs, st')"
  shows "sorted_wrt (<) (map l_id (createdLocations cs))
     \<and> distinct (map l_id (createdLocations cs))
     \<and> sorted_wrt (<) (map q_id (createdQueries cs))
     \<and> distinct (map q_id (createdQueries cs))
     \<and> sorted_wrt (<) (map c_id (createdConversations cs))
     \<and> distinct (map c_id (createdConversations cs))
     \<and> (\<forall>l\<in>set (createdLocations cs). getLocation st' (l_id l) = Some l)
     \<and> (\<forall>q\<in>set (createdQueries cs).
           getQuery st' (q_id q) = Some q \<and> q \<in> set (getQueriesByLocation st' (q_locationId q)))
     \<and> (\<forall>c\<in>set (createdConversations cs).
           map_of (conversations st') (c_id c) = Some c
           \<and> c \<in> set (getConversationsBySession st' (c_sessionId c)))"
proof -
  note l = run_locations [OF assms]
  note q = run_queries [OF assms]
  note c = run_conversations [OF assms]
  have qmem: "q \<in> snd ` set (queries st')" if "q \<in> set (createdQueries cs)" for q
  proof -
    from q that have "map_of (queries st') (q_id q) = Some q" by blast
    then have "(q_id q, q) \<in> set (queries st')" by (rule map_of_SomeD)
    then show ?thesis by force
  qed
  have cmem: "v \<in> snd ` set (conversations st')" if "v \<in> set (createdConversations cs)" for v
  proof -
    from c that have "map_of (conversations st') (c_id v) = Some v" by blast
    then have "(c_id v, v) \<in> set (conversations st')" by (rule map_of_SomeD)
    then show ?thesis by force
  qed
  from l have "sorted_wrt (<) (map l_id (createdLocations cs))
      \<and> distinct (map l_id (createdLocations cs))
      \<and> (\<forall>l\<in>set (createdLocations cs). getLocation st' (l_id l) = Some l)"
    by (simp add: getLocation_def strict_sorted_iff)
  moreover from q have "sorted_wrt (<) (map q_id (createdQueries cs))
      \<and> distinct (map q_id (createdQueries cs))
      \<and> (\<forall>q\<in>set (createdQueries cs).
           getQuery st' (q_id q) = Some q \<and> q \<in> set (getQueriesByLocation st' (q_locationId q)))"
    by (auto simp: getQuery_def getQueriesByLocation_def strict_sorted_iff intro: qmem)
  moreover from c have "sorted_wrt (<) (map c_id (createdConversations cs))
      \<and> distinct (map c_id (createdConversations cs))
      \<and> (\<forall>c\<in>set (createdConversations cs).
           map_of (conversations st') (c_id c) = Some c
           \<and> c \<in> set (getConversationsBySession st' (c_sessionId c)))"
    by (auto simp: getConversationsBySession_def strict_sorted_iff intro: cmem)
  ultimately show ?thesis by simp
qed

theorem ids_increasing_and_retrievable_witness:
  "map l_id (createdLocations (fst (run newMemStorage exampleCalls))) = [1, 2]
   \<and> sorted_wrt (<) (map l_id (createdLocations (fst (run newMemStorage exampleCalls))))
   \<and> map q_id (createdQueries (fst (run newMemStorage exampleCalls))) = [1]
   \<and> map c_id (createdConversations (fst (run newMemStorage exampleCalls))) = [1]
   \<and> getLocation (snd (run newMemStorage exampleCalls)) 2
       = Some \<lparr>l_id = 2, l_name = ''London'', l_latitude = Some ''37.7749'',
               l_longitude = Some ''-122.4194'', l_type = ''manual'', l_createdAt = 40\<rparr>"
proof -
  have r: "run newMemStorage exampleCalls
      = (fst (run newMemStorage exampleCalls), snd (run newMemStorage exampleCalls))"
    by simp
  have ids: "map l_id (createdLocations (fst (run newMemStorage exampleCalls))) = [1, 2]"
    "map q_id (createdQueries (fst (run newMemStorage exampleCalls))) = [1]"
    "map c_id (createdConversations (fst (run newMemStorage exampleCalls))) = [1]"
    by (simp_all add: exampleCalls_def newMemStorage_def createLocation_def createQuery_def
        createConversation_def Let_def)
  have "createdLocations (fst (run newMemStorage exampleCalls))
      = [\<lparr>l_id = 1, l_name = ''San Francisco'', l_latitude = Some ''37.7749'',
           l_longitude = Some ''-122.4194'', l_type = ''manual'', l_createdAt = 10\<rparr>,
         \<lparr>l_id = 2, l_name = ''London'', l_latitude = Some ''37.7749'',
           l_longitude = Some ''-122.4194'', l_type = ''manual'', l_createdAt = 40\<rparr>]"
    by (simp add: exampleCalls_def newMemStorage_def createLocation_def createQuery_def
        createConversation_def sanFrancisco_def Let_def)
  with ids show ?thesis
    using ids_increasing_and_retrievable [OF r] by simp
qed

section \<open>Properties of the year pattern\<close>

lemma fourDigits_run: "fourDigitRun d \<Longrightarrow> fourDigits (d @ r) = Some (d, r)"
  by (cases "d @ r" rule: fourDigits.cases)
     (auto simp: fourDigitRun_def length_Suc_conv numeral_eq_Suc append_eq_Cons_conv)

lemma fourDigits_None_iff: "fourDigits s = None \<longleftrightarrow> \<not> fourDigitRun (take 4 s)"
  by (induction s rule: fourDigits.induct) (auto simp: fourDigitRun_def)

lemma take4_before_run:
  "x \<noteq> [] \<Longrightarrow> length d = 4 \<Longrightarrow> take 4 (x @ d @ post) = take 4 (x @ take 3 d)"
  by (cases x) (auto simp: take_append min_def)

lemma matchHere_None_iff: "matchHere s = None \<longleftrightarrow> \<not> fourDigitRun (take 4 s)"
proof -
  have "matchHere s = None \<longleftrightarrow> fourDigits s = None"
    by (simp add: matchHere_def split: option.splits)
  then show ?thesis by (simp only: fourDigits_None_iff)
qed

lemma yearMatch_None_iff: "yearMatch s = None \<longleftrightarrow> \<not> hasFourDigitRun s"
proof (induction s)
  case Nil
  show ?case by simp
next
  case (Cons c cs)
  have "yearMatch (c # cs) = None \<longleftrightarrow> matchHere (c # cs) = None \<and> yearMatch cs = None"
    by (simp split: option.splits)
  then show ?case
    by (simp only: matchHere_None_iff Cons.IH hasFourDigitRun.simps de_Morgan_disj)
qed

lemma hasFourDigitRun_iff:
  "hasFourDigitRun s \<longleftrightarrow> (\<exists>pre d post. s = pre @ d @ post \<and> fourDigitRun d)"
proof (induction s)
  case Nil
  then show ?case by (auto simp: fourDigitRun_def)
next
  case (Cons c cs)
  show ?case
  proof
    assume "hasFourDigitRun (c # cs)"
    then consider "fourDigitRun (take 4 (c # cs))" | "hasFourDigitRun cs" by auto
    then show "\<exists>pre d post. c # cs = pre @ d @ post \<and> fourDigitRun d"
    proof cases
      case 1
      have "c # cs = [] @ take 4 (c # cs) @ drop 4 (c # cs)" by simp
      with 1 show ?thesis by blast
    next
      case 2
      with Cons.IH obtain pre d post where "cs = pre @ d @ post" "fourDigitRun d" by blast
      then have "c # cs = (c # pre) @ d @ post" by simp
      with \<open>fourDigitRun d\<close> show ?thesis by blast
    qed
  next
    assume "\<exists>pre d post. c # cs = pre @ d @ post \<and> fourDigitRun d"
    then obtain pre d post where s: "c # cs = pre @ d @ post" and d: "fourDigitRun d" by blast
    show "hasFourDigitRun (c # cs)"
    proof (cases pre)
      case Nil
      with s d have "take 4 (c # cs) = d" by (simp add: fourDigitRun_def)
      with d show ?thesis by simp
    next
      case (Cons a pre')
      with s have "cs = pre' @ d @ post" by simp
      with d Cons.IH show ?thesis by auto
    qed
  qed
qed

lemma yearMatch_first:
  "fourDigitRun d \<Longrightarrow> \<not> hasFourDigitRun (pre @ take 3 d) \<Longrightarrow>
     yearMatch (pre @ d @ post) = matchHere (d @ post)"
proof (induction pre)
  case Nil
  then obtain c cs where "d @ post = c # cs"
    by (cases d) (auto simp: fourDigitRun_def)
  moreover from Nil have "matchHere (d @ post) \<noteq> None"
    by (simp add: matchHere_def fourDigits_run)
  ultimately show ?case by (auto split: option.splits)
next
  case (Cons a pre)
  from Cons.prems have len: "length d = 4" by (simp add: fourDigitRun_def)
  have "take 4 ((a # pre) @ d @ post) = take 4 ((a # pre) @ take 3 d)"
    using len by (intro take4_before_run) simp_all
  moreover from Cons.prems have "\<not> fourDigitRun (take 4 ((a # pre) @ take 3 d))"
    by simp
  ultimately have "matchHere ((a # pre) @ d @ post) = None"
    by (simp only: matchHere_None_iff not_False_eq_True)
  with Cons show ?case by simp
qed



lemma stripAny_Some: "stripAny ws s = Some r \<Longrightarrow> \<exists>w\<in>set ws. s = w @ r"
  by (induction ws) (auto simp: prefix_def split: if_splits)



lemma stripAny_prefix_free:
  assumes "\<forall>a\<in>set ws. \<forall>b\<in>set ws. prefix a b \<longrightarrow> a = b" and "w \<in> set ws"
  shows "stripAny ws (w @ x) = Some x"
  using assms
proof (induction ws)
  case Nil
  then show ?case by simp
next
  case (Cons v ws)
  show ?case
  proof (cases "prefix v (w @ x)")
    case True
    then have "prefix v w \<or> prefix w v"
      by (auto simp: prefix_append intro: prefixI)
    with Cons.prems have "v = w" by auto
    then show ?thesis by simp
  next
    case False
    then have "v \<noteq> w" by auto
    with Cons False show ?thesis by simp
  qed
qed

lemma whiteSpace_prefix_free:
  "\<forall>a\<in>set whiteSpace. \<forall>b\<in>set whiteSpace. prefix a b \<longrightarrow> a = b"
  by code_simp

lemma stripAny_token: "w \<in> set whiteSpace \<Longrightarrow> stripAny whiteSpace (w @ x) = Some x"
  using whiteSpace_prefix_free by (rule stripAny_prefix_free)


lemma stripAny_other_start:
  "\<forall>w\<in>set ws. w \<noteq> [] \<and> hd w \<noteq> c \<Longrightarrow> stripAny ws (c # s) = None"
  by (induction ws) (auto simp: prefix_def Cons_eq_append_conv)

lemma whiteSpace_starts:
  "\<forall>w\<in>set whiteSpace. w \<noteq> [] \<and> hd w \<notin> set ''0123456789t-''"
  by code_simp

lemma stripAny_no_space:
  "c \<in> set ''0123456789t-'' \<Longrightarrow> stripAny whiteSpace (c # s) = None"
  using whiteSpace_starts by (intro stripAny_other_start) blast

lemma stripAny_empty: "stripAny whiteSpace [] = None"
  by (simp add: whiteSpace_def)

lemma skipSpaces_stop: "stripAny whiteSpace s = None \<Longrightarrow> skipSpaces s = s"
  by (subst skipSpaces.simps) simp

lemma skipSpaces_token: "w \<in> set whiteSpace \<Longrightarrow> skipSpaces (w @ x) = skipSpaces x"
  by (subst skipSpaces.simps) (simp add: stripAny_token)

lemma skipSpaces_spaces: "spaces ws \<Longrightarrow> skipSpaces (ws @ x) = skipSpaces x"
proof -
  have "set ts \<subseteq> set whiteSpace \<Longrightarrow> skipSpaces (concat ts @ x) = skipSpaces x" for ts
    by (induction ts) (simp_all add: skipSpaces_token)
  then show "spaces ws \<Longrightarrow> skipSpaces (ws @ x) = skipSpaces x"
    by (auto simp: spaces_def)
qed

lemma spaces_Nil: "spaces []"
  unfolding spaces_def by (rule exI [of _ "[]"]) simp

lemma spaces_token: "w \<in> set whiteSpace \<Longrightarrow> spaces ws \<Longrightarrow> spaces (w @ ws)"
proof -
  assume w: "w \<in> set whiteSpace" and "spaces ws"
  then obtain ts where "set ts \<subseteq> set whiteSpace" "ws = concat ts"
    by (auto simp: spaces_def)
  with w have "set (w # ts) \<subseteq> set whiteSpace \<and> w @ ws = concat (w # ts)" by simp
  then show ?thesis unfolding spaces_def by blast
qed

lemma skipSpaces_decomp: "\<exists>ws. spaces ws \<and> s = ws @ skipSpaces s"
proof (induction s rule: skipSpaces.induct)
  case (1 s)
  show ?case
  proof (cases "stripAny whiteSpace s")
    case None
    then have "skipSpaces s = s" by (rule skipSpaces_stop)
    with spaces_Nil show ?thesis by auto
  next
    case (Some r)
    then obtain w where w: "w \<in> set whiteSpace" "s = w @ r"
      using stripAny_Some by blast
    from "1.IH" [OF Some] obtain ws where ws: "spaces ws" "r = ws @ skipSpaces r" by blast
    have "skipSpaces s = skipSpaces r"
      using Some by (subst skipSpaces.simps) simp
    with w ws have "spaces (w @ ws) \<and> s = (w @ ws) @ skipSpaces s"
      by (simp add: spaces_token)
    then show ?thesis by blast
  qed
qed

lemma skipSeparator_decomp: "\<exists>sep\<in>{[], ''to'', ''-''}. s = sep @ skipSeparator s"
  by (auto simp: skipSeparator_def prefix_def split: option.splits if_splits)

lemma run_starts_with_digit:
  "fourDigitRun e \<Longrightarrow> \<exists>c r. e = c # r \<and> c \<in> set ''0123456789''"
  by (cases e) (auto simp: fourDigitRun_def isDigit_def)

lemma skipSpaces_run: "fourDigitRun e \<Longrightarrow> skipSpaces (e @ rest) = e @ rest"
proof -
  assume "fourDigitRun e"
  then obtain c r where "e = c # r" "c \<in> set ''0123456789''"
    using run_starts_with_digit by blast
  then have "stripAny whiteSpace (e @ rest) = None"
    using stripAny_no_space [of c "r @ rest"] by auto
  then show ?thesis by (rule skipSpaces_stop)
qed

lemma skipSeparator_run: "fourDigitRun e \<Longrightarrow> skipSeparator (e @ rest) = e @ rest"
proof -
  assume "fourDigitRun e"
  then obtain c r where "e = c # r" "c \<in> set ''0123456789''"
    using run_starts_with_digit by blast
  then show ?thesis by (auto simp: skipSeparator_def)
qed

lemma secondRun_found:
  assumes "secondRun post e"
  shows "map_option fst (fourDigits (skipSpaces (skipSeparator (skipSpaces post)))) = Some e"
proof -
  from assms obtain ws1 sep ws2 rest where
    post: "post = ws1 @ sep @ ws2 @ e @ rest" and ws1: "spaces ws1"
    and sep: "sep \<in> {[], ''to'', ''-''}" and ws2: "spaces ws2" and e: "fourDigitRun e"
    by (auto simp: secondRun_def)
  have first: "skipSpaces post = skipSpaces (sep @ ws2 @ e @ rest)"
    unfolding post using ws1 by (rule skipSpaces_spaces)
  have tail: "skipSpaces (ws2 @ e @ rest) = e @ rest"
    using ws2 e by (simp add: skipSpaces_spaces skipSpaces_run)
  have "skipSpaces (skipSeparator (skipSpaces post)) = e @ rest"
  proof -
    consider "sep = []" | "sep = ''to''" | "sep = ''-''" using sep by auto
    then show ?thesis
    proof cases
      case 1
      with first tail e show ?thesis
        by (simp add: skipSeparator_run skipSpaces_run)
    next
      case 2
      have "skipSpaces (''to'' @ ws2 @ e @ rest) = ''to'' @ ws2 @ e @ rest"
        by (rule skipSpaces_stop) (simp add: stripAny_no_space)
      moreover have "skipSeparator (''to'' @ ws2 @ e @ rest) = ws2 @ e @ rest"
        by (simp add: skipSeparator_def)
      ultimately show ?thesis using first tail 2 by simp
    next
      case 3
      have "skipSpaces (''-'' @ ws2 @ e @ rest) = ''-'' @ ws2 @ e @ rest"
        by (rule skipSpaces_stop) (simp add: stripAny_no_space)
      moreover have "skipSeparator (''-'' @ ws2 @ e @ rest) = ws2 @ e @ rest"
        by (simp add: skipSeparator_def)
      ultimately show ?thesis using first tail 3 by simp
    qed
  qed
  with e show ?thesis by (simp add: fourDigits_run)
qed

lemma secondRun_iff:
  "secondRun post e \<longleftrightarrow>
     map_option fst (fourDigits (skipSpaces (skipSeparator (skipSpaces post)))) = Some e"
proof
  assume "secondRun post e"
  then show "map_option fst (fourDigits (skipSpaces (skipSeparator (skipSpaces post)))) = Some e"
    by (rule secondRun_found)
next
  assume "map_option fst (fourDigits (skipSpaces (skipSeparator (skipSpaces post)))) = Some e"
  then obtain rest where
    f: "fourDigits (skipSpaces (skipSeparator (skipSpaces post))) = Some (e, rest)"
    by auto
  then have e: "skipSpaces (skipSeparator (skipSpaces post)) = e @ rest" "fourDigitRun e"
    using fourDigits_Some [OF f] by (simp_all add: fourDigitRun_def list_all_iff)
  obtain ws1 where ws1: "spaces ws1" "post = ws1 @ skipSpaces post"
    using skipSpaces_decomp by blast
  obtain sep where sep: "sep \<in> {[], ''to'', ''-''}"
      "skipSpaces post = sep @ skipSeparator (skipSpaces post)"
    using skipSeparator_decomp by blast
  obtain ws2 where ws2: "spaces ws2"
      "skipSeparator (skipSpaces post) = ws2 @ skipSpaces (skipSeparator (skipSpaces post))"
    using skipSpaces_decomp by blast
  have "post = ws1 @ sep @ ws2 @ e @ rest"
    using ws1(2) sep(2) ws2(2) e(1) by metis
  with ws1(1) sep(1) ws2(1) e(2) show "secondRun post e"
    unfolding secondRun_def by blast
qed


lemma matchHere_run:
  "fourDigitRun d \<Longrightarrow>
     matchHere (d @ post)
       = Some (d, map_option fst (fourDigits (skipSpaces (skipSeparator (skipSpaces post)))))"
  by (simp add: matchHere_def fourDigits_run)

lemma extractParameters_years:
  "startYear (extractParameters y p) = startYear (extractYears y p emptyParams)"
  "endYear (extractParameters y p) = endYear (extractYears y p emptyParams)"
  by (simp_all add: extractParameters_def)

text \<open>
  Claim C2, as stated: year detection matches a run of exactly four digits, and every
  prompt containing no four-digit digit run gets neither \<open>startYear\<close> nor \<open>endYear\<close>.
  The prompt \<open>12345\<close> has one digit run, of five digits, and so no run of exactly four
  digits, yet \<open>startYear\<close> and \<open>endYear\<close> are set; in \<open>12345 in 2020\<close> the only run of
  exactly four digits is \<open>2020\<close>, yet \<open>startYear\<close> is \<open>1234\<close>.
\<close>

theorem five_digits_give_a_year:
  "digitRuns ''12345'' = [''12345'']
   \<and> \<not> hasExactFourDigitRun ''12345''
   \<and> startYear (extractParameters 2026 ''12345'') = Some ''1234''
   \<and> endYear (extractParameters 2026 ''12345'') = Some ''2026''
   \<and> digitRuns ''12345 in 2020'' = [''12345'', ''2020'']
   \<and> startYear (extractParameters 2026 ''12345 in 2020'') = Some ''1234''"
  by code_simp

text \<open>
  Claim C2, amended: year detection looks for four digits in a row, which may be part of a
  longer digit sequence, optionally followed by the word \<open>to\<close> or a hyphen, with white
  space allowed around it, and a second group of four digits in a row. A prompt without
  four digits in a row gets neither \<open>startYear\<close> nor \<open>endYear\<close>, and only such a prompt.
  When \<open>d\<close> is the leftmost four digits in a row of the prompt, \<open>startYear\<close> is \<open>d\<close>;
  \<open>endYear\<close> is the second group when one follows \<open>d\<close>, and the current year in decimal
  when none does.
\<close>

theorem year_detection:
  "(\<not> hasFourDigitRun prompt \<longrightarrow>
      startYear (extractParameters fullYear prompt) = None
      \<and> endYear (extractParameters fullYear prompt) = None)
   \<and> (hasFourDigitRun prompt \<longrightarrow> startYear (extractParameters fullYear prompt) \<noteq> None)
   \<and> (fourDigitRun d \<and> \<not> hasFourDigitRun (pre @ take 3 d) \<longrightarrow>
        startYear (extractParameters fullYear (pre @ d @ post)) = Some d
        \<and> (secondRun post e \<longrightarrow>
             endYear (extractParameters fullYear (pre @ d @ post)) = Some e)
        \<and> ((\<forall>e'. \<not> secondRun post e') \<longrightarrow>
             endYear (extractParameters fullYear (pre @ d @ post)) = Some (toString fullYear)))"
proof (intro conjI impI)
  assume "\<not> hasFourDigitRun prompt"
  then have "yearMatch prompt = None" by (simp add: yearMatch_None_iff)
  then show "startYear (extractParameters fullYear prompt) = None"
    and "endYear (extractParameters fullYear prompt) = None"
    by (simp_all add: extractParameters_years extractYears_def emptyParams_def)
next
  assume "hasFourDigitRun prompt"
  then have "yearMatch prompt \<noteq> None" by (simp add: yearMatch_None_iff)
  then show "startYear (extractParameters fullYear prompt) \<noteq> None"
    by (auto simp: extractParameters_years extractYears_def)
next
  assume first: "fourDigitRun d \<and> \<not> hasFourDigitRun (pre @ take 3 d)"
  define g where "g = map_option fst (fourDigits (skipSpaces (skipSeparator (skipSpaces post))))"
  have second: "secondRun post e' \<longleftrightarrow> g = Some e'" for e'
    unfolding g_def by (rule secondRun_iff)
  from first have m: "yearMatch (pre @ d @ post) = Some (d, g)"
    unfolding g_def by (simp add: yearMatch_first matchHere_run)
  then show "startYear (extractParameters fullYear (pre @ d @ post)) = Some d"
    by (simp add: extractParameters_years extractYears_def)
  from m have endYear:
    "endYear (extractParameters fullYear (pre @ d @ post)) = Some (orElse g (toString fullYear))"
    by (simp add: extractParameters_years extractYears_def)
  {
    assume s: "secondRun post e"
    then have "g = Some e" by (simp only: second)
    moreover from s have "e \<noteq> []" by (auto simp: secondRun_def fourDigitRun_def)
    ultimately show "endYear (extractParameters fullYear (pre @ d @ post)) = Some e"
      by (simp add: endYear orElse_def)
  }
  {
    assume none: "\<forall>e'. \<not> secondRun post e'"
    have ne: "g \<noteq> Some e'" for e'
    proof
      assume "g = Some e'"
      then have "secondRun post e'" by (simp only: second)
      with none show False by blast
    qed
    have "g = None"
    proof (cases g)
      case None
      then show ?thesis .
    next
      case (Some a)
      with ne [of a] show ?thesis by simp
    qed
    then show "endYear (extractParameters fullYear (pre @ d @ post)) = Some (toString fullYear)"
      by (simp add: endYear orElse_def)
  }
qed


lemma toString_2026: "toString 2026 = ''2026''"
  by code_simp

theorem year_detection_witness:
  "startYear (extractParameters 2026 ''temperature and rainfall'') = None
   \<and> endYear (extractParameters 2026 ''temperature and rainfall'') = None
   \<and> startYear (extractParameters 2026 ''rainfall data 2001 to 2020'') = Some ''2001''
   \<and> endYear (extractParameters 2026 ''rainfall data 2001 to 2020'') = Some ''2020''
   \<and> startYear (extractParameters 2026 ''population trends 1990'') = Some ''1990''
   \<and> endYear (extractParameters 2026 ''population trends 1990'') = Some ''2026''
   \<and> startYear (extractParameters 2026 ''12345'') = Some ''1234''
   \<and> endYear (extractParameters 2026 ''12345'') = Some ''2026''"
proof -
  have none: "\<not> hasFourDigitRun ''temperature and rainfall''"
    by (simp add: fourDigitRun_def isDigit_def)
  have first1: "fourDigitRun ''2001'' \<and> \<not> hasFourDigitRun (''rainfall data '' @ take 3 ''2001'')"
    by (simp add: fourDigitRun_def isDigit_def)
  have "spaces '' ''"
    unfolding spaces_def by (rule exI [of _ "['' '']"]) (simp add: whiteSpace_def)
  then have second1: "secondRun '' to 2020'' ''2020''"
    unfolding secondRun_def
    by (intro exI [of _ "'' ''"] exI [of _ "''to''"] exI [of _ "[]"])
       (simp add: fourDigitRun_def isDigit_def)
  have first2:
    "fourDigitRun ''1990'' \<and> \<not> hasFourDigitRun (''population trends '' @ take 3 ''1990'')"
    by (simp add: fourDigitRun_def isDigit_def)
  have second2: "\<forall>e'. \<not> secondRun [] e'"
    by (auto simp: secondRun_def fourDigitRun_def)
  have first3: "fourDigitRun ''1234'' \<and> \<not> hasFourDigitRun ([] @ take 3 ''1234'')"
    by (simp add: fourDigitRun_def isDigit_def)
  have "map_option fst (fourDigits (skipSpaces (skipSeparator (skipSpaces ''5'')))) = None"
    by code_simp
  then have second3: "\<forall>e'. \<not> secondRun ''5'' e'"
    by (simp add: secondRun_iff)
  show ?thesis
    using year_detection [where prompt = "''temperature and rainfall''" and fullYear = 2026
            and pre = "''rainfall data ''" and d = "''2001''" and post = "'' to 2020''"
            and e = "''2020''"]
          year_detection [where prompt = "''temperature and rainfall''" and fullYear = 2026
            and pre = "''population trends ''" and d = "''1990''" and post = "[]"]
          year_detection [where prompt = "''temperature and rainfall''" and fullYear = 2026
            and pre = "[]" and d = "''1234''" and post = "''5''"]
          none first1 second1 first2 second2 first3 second3
    by (simp add: toString_2026)
qed

end
